theory Spec2Isabelle
  imports Complex_Main "HOL-Library.Word" "HOL-Library.Sublist"
begin

section \<open>Voice-activated recorder: the three scripts test.py, test2.py, testson.py\<close>

text \<open>
  The three scripts share one shape: a loop takes one audio block per iteration from a
  queue, asks a detector whether the block is speech, keeps a list of recorded blocks and
  writes that list to a WAV file when the recording ends. The development models one
  iteration of each loop as a function from the loop variables to the next loop variables,
  the run of a loop as the iteration of that function over the blocks that arrive, and
  the two exception handlers that surround the loop.

  Clock readings (\<^verbatim>\<open>time.time()\<close>) are exact rationals; the readings an iteration
  takes are part of its input. The concrete runs below use readings that are multiples of
  one half, on which the double-precision arithmetic of the scripts is exact. The
  recognizer is an external library: what it answers for a block is part of the input as
  well.
\<close>

subsection \<open>Audio blocks and the amplitude detector (testson.py)\<close>

type_synonym byte = "8 word"
type_synonym frame = "byte list"
type_synonym int16 = "16 word"

text \<open>The exceptions that can leave the loop.\<close>

datatype py_error = ValueError | TypeError | RecognizerError | FileNotFoundError | OSError

text \<open>
  \<^verbatim>\<open>np.frombuffer(data, dtype=np.int16)\<close>: two bytes per sample, low byte first; a buffer
  of odd length raises ValueError.
\<close>

definition le_int16 :: "byte \<Rightarrow> byte \<Rightarrow> int16" where
  "le_int16 lo hi = word_of_nat (unat lo + 256 * unat hi)"

fun frombuffer :: "frame \<Rightarrow> py_error + int16 list" where
  "frombuffer [] = Inr []"
| "frombuffer [b] = Inl ValueError"
| "frombuffer (lo # hi # rest) =
     (case frombuffer rest of
        Inl e \<Rightarrow> Inl e
      | Inr ws \<Rightarrow> Inr (le_int16 lo hi # ws))"

text \<open>
  \<^verbatim>\<open>np.abs\<close> on an int16 array stays in int16: the negation is the two's complement one,
  so the most negative sample is its own absolute value.
\<close>

definition np_abs :: "int16 \<Rightarrow> int16" where
  "np_abs w = (if sint w < 0 then - w else w)"

text \<open>
  \<^verbatim>\<open>.mean()\<close> of an integer array is computed in double precision. The sum of up to
  \<open>2 ^ 37\<close> int16 values is exact there, and the comparison of the quotient with an
  integer threshold has the same result as on the exact quotient, so the mean is modelled
  as a rational. The mean of an empty array is nan (\<open>None\<close>), and \<^verbatim>\<open>nan > threshold\<close>
  is false.
\<close>

definition mean :: "int list \<Rightarrow> rat option" where
  "mean xs = (if xs = [] then None else Some (of_int (sum_list xs) / of_nat (length xs)))"

definition is_speech :: "frame \<Rightarrow> int \<Rightarrow> py_error + bool" where
  "is_speech data threshold =
     (case frombuffer data of
        Inl e \<Rightarrow> Inl e
      | Inr ws \<Rightarrow>
          Inr (case mean (map (\<lambda>w. sint (np_abs w)) ws) of
                 None \<Rightarrow> False
               | Some m \<Rightarrow> m > of_int threshold))"

text \<open>
  An audio block of \<open>n\<close> equal samples, each with low byte \<open>lo\<close> and high byte \<open>hi\<close>:
  what a constant signal delivers. The stream is opened with a block size of 8000 samples.
\<close>

definition const_frame :: "nat \<Rightarrow> byte \<Rightarrow> byte \<Rightarrow> frame" where
  "const_frame n lo hi = concat (replicate n [lo, hi])"

subsection \<open>The recognizer\<close>

text \<open>
  \<^verbatim>\<open>rec.AcceptWaveform(data)\<close> answers False (\<open>Pending\<close>), or True, and then
  \<^verbatim>\<open>rec.Result()\<close> is a JSON text (\<open>Ready\<close>), or it raises (\<open>Throws\<close>).
  The scripts test \<^verbatim>\<open>'"text" : ""' not in result\<close>.
\<close>

datatype rec_event = Pending | Ready string | Throws

definition text_pattern :: string where
  \<open>text_pattern = ''"text" : ""''\<close>

fun str_in :: "string \<Rightarrow> string \<Rightarrow> bool" where
  "str_in pat [] = (pat = [])"
| "str_in pat (c # cs) = (prefix pat (c # cs) \<or> str_in pat cs)"

definition nonempty_text :: "string \<Rightarrow> bool" where
  "nonempty_text result = (\<not> str_in text_pattern result)"

subsection \<open>Command line, files and the sink\<close>

record args =
  filename :: string
  samplerate :: nat
  silence :: int

text \<open>
  A WAV file is its three format parameters and its audio bytes. The world is the files
  on disk, the log of the files opened for writing, in order, and two facts of the
  platform: \<open>writable\<close> says which names \<^verbatim>\<open>wave.open(name, 'wb')\<close> can open (a name in
  a directory that does not exist, or without permission, cannot be opened: OSError, and
  nothing is created), and \<open>read_ahead\<close> is the number of audio bytes that the reader of
  a WAV file holds in its buffer once it has read the header. The loop runs inside the
  opened input stream, so \<open>samplerate\<close> is the positive rate the stream was opened with.
\<close>

record wav =
  nchannels :: nat
  sampwidth :: nat
  framerate :: nat
  frames :: "byte list"

record world =
  files :: "string \<rightharpoonup> wav"
  written :: "string list"
  writable :: "string \<Rightarrow> bool"
  read_ahead :: nat

definition write_wave :: "string \<Rightarrow> frame list \<Rightarrow> nat \<Rightarrow> world \<Rightarrow> py_error + world" where
  "write_wave name data_list rate w =
     (if writable w name then
        Inr (w\<lparr>files := (files w)(name \<mapsto>
               \<lparr>nchannels = 1, sampwidth = 2, framerate = rate, frames = concat data_list\<rparr>),
             written := written w @ [name]\<rparr>)
      else Inl OSError)"

definition create_wave_header :: "string \<Rightarrow> nat \<Rightarrow> world \<Rightarrow> py_error + world" where
  "create_wave_header name rate w =
     (if writable w name then
        Inr (w\<lparr>files := (files w)(name \<mapsto>
               \<lparr>nchannels = 1, sampwidth = 2, framerate = rate, frames = []\<rparr>),
             written := written w @ [name]\<rparr>)
      else Inl OSError)"

text \<open>
  The copy loop of \<^verbatim>\<open>append_wave\<close>: \<^verbatim>\<open>readframes(1024)\<close> takes the next
  \<open>1024 * nchannels * sampwidth\<close> bytes, and the loop stops at the first empty read.
\<close>

function copy_frames :: "nat \<Rightarrow> byte list \<Rightarrow> byte list \<Rightarrow> byte list" where
  "copy_frames chunk src out =
     (if take chunk src = [] then out
      else copy_frames chunk (drop chunk src) (out @ take chunk src))"
  by pat_completeness auto
termination
  by (relation "measure (\<lambda>(chunk, src, out). length src)") auto

declare copy_frames.simps [simp del]

text \<open>
  \<^verbatim>\<open>append_wave(temp_filename, final_filename)\<close>: the temporary file is opened for
  reading (FileNotFoundError when it is missing), then the final file is opened with mode
  \<^verbatim>\<open>'wb'\<close> (OSError when it cannot be opened), which empties it; it takes the
  parameters of the temporary file and receives the audio that the reader delivers. When
  both names are the same file, opening it for writing has emptied the file that is
  being read, and the reader delivers only the bytes it holds in its buffer.
\<close>

definition append_wave :: "string \<Rightarrow> string \<Rightarrow> world \<Rightarrow> py_error + world" where
  "append_wave temp_name final_name w =
     (case files w temp_name of
        None \<Rightarrow> Inl FileNotFoundError
      | Some temp_wf \<Rightarrow>
          if writable w final_name then
            Inr (w\<lparr>files := (files w)(final_name \<mapsto>
                   \<lparr>nchannels = nchannels temp_wf, sampwidth = sampwidth temp_wf,
                    framerate = framerate temp_wf,
                    frames = copy_frames (1024 * (nchannels temp_wf * sampwidth temp_wf))
                               (if final_name = temp_name
                                then take (read_ahead w) (frames temp_wf)
                                else frames temp_wf) []\<rparr>),
                 written := written w @ [final_name]\<rparr>)
          else Inl OSError)"

definition temp_filename :: string where
  "temp_filename = ''temp_output.wav''"

subsection \<open>Loop variables, inputs and outcomes\<close>

record loop_vars =
  recording :: bool
  audio_data :: "frame list"

record test_vars = loop_vars +
  silence_timer :: "rat option"

record testson_vars = loop_vars +
  silence_start :: "rat option"
  last_voice_activity :: "rat option"
  pre_speech_buffer :: "frame list"

text \<open>
  What one iteration receives: the block from the queue, the recognizer's answer for it,
  and the clock readings of the calls of \<^verbatim>\<open>time.time()\<close> the iteration can reach
  (test.py and test2.py: one call, in line 94 or 95, resp. 117 or 118; testson.py: line 101,
  line 105 and line 108).
\<close>

record block =
  data :: frame
  recognizer :: rec_event

record test_block = block +
  now :: rat

record testson_block = block +
  now_voice :: rat
  now_silence :: rat
  now_current :: rat

text \<open>
  An iteration goes on to the next \<^verbatim>\<open>q.get()\<close>, leaves the loop by \<^verbatim>\<open>break\<close>
  after writing, or raises.
\<close>

datatype 'v outcome = Continue 'v | Break 'v world | Raise py_error world

fun run :: "('b \<Rightarrow> 'v \<Rightarrow> world \<Rightarrow> 'v outcome) \<Rightarrow> 'b list \<Rightarrow> 'v \<Rightarrow> world \<Rightarrow> 'v outcome" where
  "run step [] v w = Continue v"
| "run step (b # bs) v w =
     (case step b v w of
        Continue v' \<Rightarrow> run step bs v' w
      | Break v' w' \<Rightarrow> Break v' w'
      | Raise e w' \<Rightarrow> Raise e w')"

text \<open>
  The process: blocks arrive, or the user interrupts while the loop waits for a block in
  \<^verbatim>\<open>q.get()\<close>, where the loop spends its time; an interruption in the middle of an
  iteration is not modelled. After \<^verbatim>\<open>break\<close> the script ends (status 0); the
  KeyboardInterrupt handler ends with \<^verbatim>\<open>parser.exit(0)\<close>; the handler for every
  other exception ends with \<^verbatim>\<open>parser.exit(message)\<close>, which prints the message and
  leaves with status 1. An exception raised inside the KeyboardInterrupt handler is
  caught by nothing: the interpreter prints the traceback and leaves with status 1
  (\<open>Uncaught\<close>).
\<close>

datatype 'b event = Block 'b | KeyboardInterrupt

datatype exit = Finished | Interrupted | Failed py_error | Uncaught py_error

fun exit_status :: "exit \<Rightarrow> nat" where
  "exit_status Finished = 0"
| "exit_status Interrupted = 0"
| "exit_status (Failed e) = 1"
| "exit_status (Uncaught e) = 1"

datatype 'v process = Waiting 'v world | Exited exit world

fun main :: "('b \<Rightarrow> 'v \<Rightarrow> world \<Rightarrow> 'v outcome) \<Rightarrow> ('v \<Rightarrow> world \<Rightarrow> exit \<times> world) \<Rightarrow>
    'b event list \<Rightarrow> 'v \<Rightarrow> world \<Rightarrow> 'v process" where
  "main step handler [] v w = Waiting v w"
| "main step handler (KeyboardInterrupt # es) v w =
     (case handler v w of (x, w') \<Rightarrow> Exited x w')"
| "main step handler (Block b # es) v w =
     (case step b v w of
        Continue v' \<Rightarrow> main step handler es v' w
      | Break v' w' \<Rightarrow> Exited Finished w'
      | Raise e w' \<Rightarrow> Exited (Failed e) w')"

subsection \<open>testson.py: amplitude detector, pre-roll buffer, trailing trim\<close>

definition buffer_duration :: nat where
  "buffer_duration = 1"

text \<open>Lines 88 to 91: while not recording, the block joins the buffer; \<^verbatim>\<open>pop(0)\<close>
  removes the first element.\<close>

definition push_pre_speech :: "args \<Rightarrow> frame \<Rightarrow> testson_vars \<Rightarrow> testson_vars" where
  "push_pre_speech a d v =
     (if \<not> recording v then
        (let b = pre_speech_buffer v @ [d]
         in v\<lparr>pre_speech_buffer :=
                (if length b > buffer_duration * samplerate a div 8000 then tl b else b)\<rparr>)
      else v)"

text \<open>\<^verbatim>\<open>int(x)\<close> truncates towards zero; \<^verbatim>\<open>xs[:stop]\<close> counts a negative stop
  from the end and clips at both ends.\<close>

definition py_int :: "rat \<Rightarrow> int" where
  "py_int x = (if x < 0 then \<lceil>x\<rceil> else \<lfloor>x\<rfloor>)"

definition slice_to :: "'a list \<Rightarrow> int \<Rightarrow> 'a list" where
  "slice_to xs stop =
     (let n = int (length xs);
          s = (if stop < 0 then max 0 (stop + n) else min stop n)
      in take (nat s) xs)"

text \<open>Lines 112 to 114.\<close>

definition trim_tail :: "args \<Rightarrow> rat \<Rightarrow> rat \<Rightarrow> frame list \<Rightarrow> frame list" where
  "trim_tail a last_voice current_time audio =
     (let end_time = min (last_voice + 1) current_time;
          frames_to_keep = py_int ((end_time - last_voice) * of_nat (samplerate a) / 8000)
      in slice_to audio (int (length audio) - frames_to_keep))"

text \<open>Lines 122 to 127: every block is fed to the recognizer; a transcript that is not
  empty starts a recording when none is running.\<close>

definition testson_recognizer :: "testson_block \<Rightarrow> world \<Rightarrow> testson_vars \<Rightarrow> testson_vars outcome" where
  "testson_recognizer b w v =
     (case recognizer b of
        Throws \<Rightarrow> Raise RecognizerError w
      | Pending \<Rightarrow> Continue v
      | Ready result \<Rightarrow>
          if nonempty_text result \<and> \<not> recording v
          then Continue (v\<lparr>recording := True, audio_data := pre_speech_buffer v @ [data b]\<rparr>)
          else Continue v)"

text \<open>Lines 103 to 120: a silent block while recording.\<close>

definition testson_silence :: "args \<Rightarrow> testson_block \<Rightarrow> world \<Rightarrow> testson_vars \<Rightarrow> testson_vars outcome" where
  "testson_silence a b w v =
     (let started = (case silence_start v of None \<Rightarrow> now_silence b | Some t \<Rightarrow> t);
          audio = audio_data v @ [data b];
          current_time = now_current b;
          v1 = v\<lparr>silence_start := Some started, audio_data := audio\<rparr>
      in if current_time - started > 3 then
           (case last_voice_activity v of
              None \<Rightarrow> Raise TypeError w
            | Some last_voice \<Rightarrow>
                (let trimmed = trim_tail a last_voice current_time audio
                 in case write_wave (filename a) trimmed (samplerate a) w of
                      Inl e \<Rightarrow> Raise e w
                    | Inr w' \<Rightarrow> Break (v1\<lparr>audio_data := trimmed, recording := False\<rparr>) w'))
         else testson_recognizer b w v1)"

text \<open>Lines 87 to 127: one iteration.\<close>

definition testson_step :: "args \<Rightarrow> testson_block \<Rightarrow> testson_vars \<Rightarrow> world \<Rightarrow> testson_vars outcome" where
  "testson_step a b v0 w =
     (let v = push_pre_speech a (data b) v0
      in case is_speech (data b) 500 of
           Inl e \<Rightarrow> Raise e w
         | Inr speech \<Rightarrow>
             if speech then
               testson_recognizer b w
                 ((if \<not> recording v
                   then v\<lparr>recording := True, audio_data := pre_speech_buffer v @ [data b]\<rparr>
                   else v\<lparr>audio_data := audio_data v @ [data b]\<rparr>)
                  \<lparr>silence_start := None, last_voice_activity := Some (now_voice b)\<rparr>)
             else if recording v then testson_silence a b w v
             else testson_recognizer b w v)"

text \<open>Lines 79 to 83.\<close>

definition testson_init :: testson_vars where
  "testson_init = \<lparr>recording = False, audio_data = [], silence_start = None,
     last_voice_activity = None, pre_speech_buffer = []\<rparr>"

text \<open>Lines 129 to 135.\<close>

definition testson_interrupt :: "args \<Rightarrow> testson_vars \<Rightarrow> world \<Rightarrow> exit \<times> world" where
  "testson_interrupt a v w =
     (if recording v then
        (case write_wave (filename a) (audio_data v) (samplerate a) w of
           Inl e \<Rightarrow> (Uncaught e, w)
         | Inr w' \<Rightarrow> (Interrupted, w'))
      else (Interrupted, w))"

definition testson_main :: "args \<Rightarrow> testson_block event list \<Rightarrow> world \<Rightarrow> testson_vars process" where
  "testson_main a es w = main (testson_step a) (testson_interrupt a) es testson_init w"

subsection \<open>test.py: recognizer only\<close>

text \<open>The truth value of \<^verbatim>\<open>silence_timer\<close> in a condition: None and 0.0 are false.\<close>

definition truthy :: "rat option \<Rightarrow> bool" where
  "truthy t = (case t of None \<Rightarrow> False | Some x \<Rightarrow> x \<noteq> 0)"

definition after_timer :: "rat \<Rightarrow> rat option \<Rightarrow> bool" where
  "after_timer t timer = (case timer of None \<Rightarrow> False | Some d \<Rightarrow> t > d)"

text \<open>Lines 81 to 104: one iteration (lines 106 to 109 only print).\<close>

definition test_step :: "args \<Rightarrow> test_block \<Rightarrow> test_vars \<Rightarrow> world \<Rightarrow> test_vars outcome" where
  "test_step a b v w =
     (case recognizer b of
        Throws \<Rightarrow> Raise RecognizerError w
      | Ready result \<Rightarrow>
          if nonempty_text result then
            Continue ((if \<not> recording v
                       then v\<lparr>recording := True, audio_data := [data b]\<rparr>
                       else v\<lparr>audio_data := audio_data v @ [data b]\<rparr>)
                      \<lparr>silence_timer := None\<rparr>)
          else if recording v \<and> silence_timer v = None then
            Continue (v\<lparr>silence_timer := Some (now b + 2)\<rparr>)
          else if recording v \<and> truthy (silence_timer v) \<and> after_timer (now b) (silence_timer v) then
            (case write_wave (filename a) (audio_data v) (samplerate a) w of
               Inl e \<Rightarrow> Raise e w
             | Inr w' \<Rightarrow> Break (v\<lparr>recording := False\<rparr>) w')
          else Continue v
      | Pending \<Rightarrow>
          if recording v then Continue (v\<lparr>audio_data := audio_data v @ [data b]\<rparr>)
          else Continue v)"

definition test_init :: test_vars where
  "test_init = \<lparr>recording = False, audio_data = [], silence_timer = None\<rparr>"

text \<open>Lines 111 to 117.\<close>

definition test_interrupt :: "args \<Rightarrow> test_vars \<Rightarrow> world \<Rightarrow> exit \<times> world" where
  "test_interrupt a v w =
     (if recording v then
        (case write_wave (filename a) (audio_data v) (samplerate a) w of
           Inl e \<Rightarrow> (Uncaught e, w)
         | Inr w' \<Rightarrow> (Interrupted, w'))
      else (Interrupted, w))"

definition test_main :: "args \<Rightarrow> test_block event list \<Rightarrow> world \<Rightarrow> test_vars process" where
  "test_main a es w = main (test_step a) (test_interrupt a) es test_init w"

subsection \<open>test2.py: configurable silence, temporary file\<close>

text \<open>Lines 121 and 122, and again 139 and 140: the recording goes to the temporary
  file, and \<^verbatim>\<open>append_wave\<close> carries it to the destination. The result is the
  exception raised, if any, and the world as the two calls leave it.\<close>

definition test2_finalize :: "args \<Rightarrow> frame list \<Rightarrow> world \<Rightarrow> py_error option \<times> world" where
  "test2_finalize a audio w =
     (case write_wave temp_filename audio (samplerate a) w of
        Inl e \<Rightarrow> (Some e, w)
      | Inr w1 \<Rightarrow>
          (case append_wave temp_filename (filename a) w1 of
             Inl e \<Rightarrow> (Some e, w1)
           | Inr w2 \<Rightarrow> (None, w2)))"

text \<open>Lines 106 to 128: one iteration.\<close>

definition test2_step :: "args \<Rightarrow> test_block \<Rightarrow> test_vars \<Rightarrow> world \<Rightarrow> test_vars outcome" where
  "test2_step a b v w =
     (case recognizer b of
        Throws \<Rightarrow> Raise RecognizerError w
      | Ready result \<Rightarrow>
          if nonempty_text result then
            Continue (v\<lparr>recording := True, silence_timer := None,
                        audio_data := audio_data v @ [data b]\<rparr>)
          else if recording v \<and> silence_timer v = None then
            Continue (v\<lparr>silence_timer := Some (now b + of_int (silence a))\<rparr>)
          else if recording v \<and> truthy (silence_timer v) \<and> after_timer (now b) (silence_timer v) then
            (case test2_finalize a (audio_data v) w of
               (Some e, w') \<Rightarrow> Raise e w'
             | (None, w') \<Rightarrow> Break (v\<lparr>recording := False\<rparr>) w')
          else Continue v
      | Pending \<Rightarrow>
          if recording v then Continue (v\<lparr>audio_data := audio_data v @ [data b]\<rparr>)
          else Continue v)"

text \<open>Lines 135 to 142. An exception inside this handler is not caught by the handler
  below it: the process ends with a traceback and status 1.\<close>

definition test2_interrupt :: "args \<Rightarrow> test_vars \<Rightarrow> world \<Rightarrow> exit \<times> world" where
  "test2_interrupt a v w =
     (if recording v then
        (case test2_finalize a (audio_data v) w of
           (Some e, w') \<Rightarrow> (Uncaught e, w')
         | (None, w') \<Rightarrow> (Interrupted, w'))
      else (Interrupted, w))"

text \<open>Line 91 runs before the loop, inside the \<^verbatim>\<open>try\<close>: the temporary file is
  created with no audio.\<close>

definition test2_main :: "args \<Rightarrow> test_block event list \<Rightarrow> world \<Rightarrow> test_vars process" where
  "test2_main a es w =
     (case create_wave_header temp_filename (samplerate a) w of
        Inl e \<Rightarrow> Exited (Failed e) w
      | Inr w0 \<Rightarrow> main (test2_step a) (test2_interrupt a) es test_init w0)"

subsection \<open>Concrete inputs\<close>

text \<open>
  A sample rate of 16000 with blocks of 8000 samples: one block every half second.
  \<open>loud\<close> is a block of samples of value 1000, \<open>quiet k\<close> a block of samples of value
  \<open>k\<close> (below 256), \<open>clipped\<close> a block of samples of value -32768, and \<open>malformed\<close>
  a buffer of odd length.
\<close>

definition args16k :: args where
  "args16k = \<lparr>filename = ''output.wav'', samplerate = 16000, silence = 2\<rparr>"

text \<open>An empty disk on which every name can be opened; the reader's buffer holds 4096
  bytes, 44 of them the header.\<close>

definition empty_world :: world where
  "empty_world = \<lparr>files = Map.empty, written = [], writable = (\<lambda>name. True),
     read_ahead = 4052\<rparr>"

definition loud :: frame where
  "loud = const_frame 8000 0xE8 0x03"

definition quiet :: "byte \<Rightarrow> frame" where
  "quiet k = const_frame 8000 k 0"

definition clipped :: frame where
  "clipped = const_frame 8000 0x00 0x80"

definition malformed :: frame where
  "malformed = [0x00]"

text \<open>A block of testson.py received at time \<open>t\<close> (every clock reading of the iteration
  is \<open>t\<close>) with the recognizer still pending, and the same block with a transcript.\<close>

definition heard :: "rat \<Rightarrow> frame \<Rightarrow> testson_block" where
  "heard t d = \<lparr>data = d, recognizer = Pending, now_voice = t, now_silence = t, now_current = t\<rparr>"

definition transcript :: string where
  \<open>transcript = ''{ "text" : "merhaba" }''\<close>

definition empty_transcript :: string where
  \<open>empty_transcript = ''{ "text" : "" }''\<close>

definition heard_with :: "string \<Rightarrow> rat \<Rightarrow> frame \<Rightarrow> testson_block" where
  "heard_with r t d =
     \<lparr>data = d, recognizer = Ready r, now_voice = t, now_silence = t, now_current = t\<rparr>"

text \<open>Blocks of test.py and test2.py received at time \<open>t\<close>.\<close>

definition pending :: "rat \<Rightarrow> frame \<Rightarrow> test_block" where
  "pending t d = \<lparr>data = d, recognizer = Pending, now = t\<rparr>"

definition result :: "string \<Rightarrow> rat \<Rightarrow> frame \<Rightarrow> test_block" where
  "result r t d = \<lparr>data = d, recognizer = Ready r, now = t\<rparr>"

text \<open>A disk on which the destination exists already: an earlier recording of one quiet
  block, mono, 16 bit, at 16000 Hz, and the same recording at 44100 Hz.\<close>

definition old_recording :: wav where
  "old_recording = \<lparr>nchannels = 1, sampwidth = 2, framerate = 16000, frames = quiet 9\<rparr>"

definition old_world :: world where
  "old_world = empty_world\<lparr>files := [''output.wav'' \<mapsto> old_recording]\<rparr>"

definition other_rate_world :: world where
  "other_rate_world =
     empty_world\<lparr>files := [''output.wav'' \<mapsto> old_recording\<lparr>framerate := 44100\<rparr>]\<rparr>"

text \<open>A disk on which the destination \<^verbatim>\<open>output.wav\<close> cannot be opened for writing.\<close>

definition locked_world :: world where
  "locked_world = empty_world\<lparr>writable := (\<lambda>name. name \<noteq> ''output.wav'')\<rparr>"

section \<open>Lemmas\<close>

subsection \<open>The detector on constant blocks\<close>

lemma frombuffer_const_frame:
  "frombuffer (const_frame n lo hi) = Inr (replicate n (le_int16 lo hi))"
  by (induction n) (simp_all add: const_frame_def)

lemma mean_replicate: "0 < n \<Longrightarrow> mean (replicate n x) = Some (of_int x)"
  by (simp add: mean_def sum_list_replicate)

lemma is_speech_const_frame:
  "is_speech (const_frame n lo hi) th =
     Inr (0 < n \<and> th < sint (np_abs (le_int16 lo hi)))"
proof (cases "n = 0")
  case True
  then show ?thesis by (simp add: is_speech_def frombuffer_const_frame mean_def)
next
  case False
  then show ?thesis
    by (simp add: is_speech_def frombuffer_const_frame mean_replicate del: of_int_sint)
qed

lemma is_speech_loud: "is_speech loud 500 = Inr True"
  by (simp add: loud_def is_speech_const_frame le_int16_def np_abs_def)

lemma sint_le_int16_low: "sint (le_int16 k 0) = uint k"
proof -
  have hi: "uint k < 32768" using uint_lt2p [of k] by simp
  have lo: "- 32768 \<le> uint k" by (rule order_trans [of _ 0]) simp_all
  have "signed_take_bit 15 (uint k) = uint k"
    using hi lo by (simp add: signed_take_bit_int_eq_self_iff)
  moreover have "(ucast k :: int16) = word_of_int (uint k)"
    by simp
  ultimately show ?thesis
    by (simp add: le_int16_def sint_sbintrunc' del: of_int_uint)
qed

lemma is_speech_quiet: "is_speech (quiet k) 500 = Inr False"
proof -
  have b: "uint k < 256" using uint_lt2p [of k] by simp
  have "sint (np_abs (le_int16 k 0)) = uint k"
    by (simp add: np_abs_def sint_le_int16_low)
  with b show ?thesis by (simp add: quiet_def is_speech_const_frame)
qed

lemma is_speech_malformed: "is_speech malformed 500 = Inl ValueError"
  by (simp add: malformed_def is_speech_def)

lemma sint_np_abs:
  fixes w :: int16
  assumes "w \<noteq> - 32768"
  shows "sint (np_abs w) = \<bar>sint w\<bar>"
proof -
  have ne: "sint w \<noteq> - 32768"
  proof
    assume "sint w = - 32768"
    then have "(word_of_int (sint w) :: int16) = word_of_int (- 32768)" by simp
    with assms show False by simp
  qed
  have lo: "- 32768 \<le> sint w" using sint_ge [of w] by simp
  have hi: "sint w < 32768" using sint_lt [of w] by simp
  have "signed_take_bit 15 (- sint w) = - sint w"
    using ne lo hi by (simp add: signed_take_bit_int_eq_self_iff)
  then have "sint (- w) = - sint w" by (simp add: sint_word_minus)
  then show ?thesis by (simp add: np_abs_def)
qed

text \<open>Away from the most negative sample the detector compares the mean magnitude.\<close>

lemma is_speech_mean_abs:
  assumes "frombuffer d = Inr ws" and "ws \<noteq> []" and "- 32768 \<notin> set ws"
  shows "is_speech d th =
           Inr (of_int th < (of_int (\<Sum>w\<leftarrow>ws. \<bar>sint w\<bar>) :: rat) / of_nat (length ws))"
proof -
  have eq: "map (\<lambda>w. sint (np_abs w)) ws = map (\<lambda>w. \<bar>sint w\<bar>) ws"
    using assms(3) by (intro map_cong refl sint_np_abs) auto
  show ?thesis
    using assms(2) by (simp add: is_speech_def assms(1) eq mean_def del: of_int_sint)
qed

subsection \<open>Runs\<close>

lemma run_append:
  "run step (bs @ cs) v w =
     (case run step bs v w of
        Continue v' \<Rightarrow> run step cs v' w
      | Break v' w' \<Rightarrow> Break v' w'
      | Raise e w' \<Rightarrow> Raise e w')"
  by (induction bs arbitrary: v) (auto split: outcome.splits)

lemma run_snoc:
  "run step (bs @ [b]) v w =
     (case run step bs v w of
        Continue v' \<Rightarrow> step b v' w
      | Break v' w' \<Rightarrow> Break v' w'
      | Raise e w' \<Rightarrow> Raise e w')"
  by (simp add: run_append split: outcome.splits)

lemma main_blocks:
  "main step h (map Block bs @ es) v w =
     (case run step bs v w of
        Continue v' \<Rightarrow> main step h es v' w
      | Break v' w' \<Rightarrow> Exited Finished w'
      | Raise e w' \<Rightarrow> Exited (Failed e) w')"
  by (induction bs arbitrary: v) (auto split: outcome.splits)

lemma run_invariant:
  assumes "P v0"
    and "\<And>b v v'. P v \<Longrightarrow> step b v w = Continue v' \<Longrightarrow> P v'"
    and "run step bs v0 w = Continue v"
  shows "P v"
  using assms(1,3)
proof (induction bs arbitrary: v0)
  case Nil
  then show ?case by simp
next
  case (Cons b bs)
  from Cons.prems(2) obtain v' where s: "step b v0 w = Continue v'"
    and r: "run step bs v' w = Continue v"
    by (auto split: outcome.splits)
  from assms(2) [OF Cons.prems(1) s] have "P v'" .
  from Cons.IH [OF this r] show ?case .
qed

subsection \<open>The sink\<close>

lemma copy_frames_eq: "copy_frames chunk src out = (if chunk = 0 then out else out @ src)"
proof (induction chunk src out rule: copy_frames.induct)
  case (1 chunk src out)
  show ?case
  proof (cases "take chunk src = []")
    case True
    then show ?thesis by (subst copy_frames.simps) auto
  next
    case False
    then have "chunk \<noteq> 0" by auto
    with False 1 show ?thesis
      by (subst copy_frames.simps) simp
  qed
qed

subsection \<open>Steps of testson.py\<close>


lemma testson_recognizer_Continue:
  assumes "testson_recognizer b w v = Continue v1"
  shows "v1 = v \<or>
         (\<not> recording v \<and> v1 = v\<lparr>recording := True, audio_data := pre_speech_buffer v @ [data b]\<rparr>)"
  using assms
  by (auto simp: testson_recognizer_def split: rec_event.splits if_splits)

lemma recording_push [simp]: "recording (push_pre_speech a d v) = recording v"
  by (simp add: push_pre_speech_def Let_def)

lemma push_recording [simp]: "recording v \<Longrightarrow> push_pre_speech a d v = v"
  by (simp add: push_pre_speech_def)

lemma push_fields [simp]:
  "audio_data (push_pre_speech a d v) = audio_data v"
  "silence_start (push_pre_speech a d v) = silence_start v"
  "last_voice_activity (push_pre_speech a d v) = last_voice_activity v"
  by (simp_all add: push_pre_speech_def Let_def)

lemma testson_step_Continue:
  assumes "testson_step a b v0 w = Continue v1"
  shows "(is_speech (data b) 500 = Inr True \<and>
          v1 = (if recording v0
                then v0\<lparr>audio_data := audio_data v0 @ [data b]\<rparr>
                else (push_pre_speech a (data b) v0)
                       \<lparr>recording := True,
                        audio_data := pre_speech_buffer (push_pre_speech a (data b) v0) @ [data b]\<rparr>)
               \<lparr>silence_start := None, last_voice_activity := Some (now_voice b)\<rparr>) \<or>
         (is_speech (data b) 500 = Inr False \<and> recording v0 \<and>
          v1 = v0\<lparr>silence_start := Some (case silence_start v0 of None \<Rightarrow> now_silence b | Some t \<Rightarrow> t),
                  audio_data := audio_data v0 @ [data b]\<rparr>) \<or>
         (is_speech (data b) 500 = Inr False \<and> \<not> recording v0 \<and>
          (v1 = push_pre_speech a (data b) v0 \<or>
           v1 = (push_pre_speech a (data b) v0)
                  \<lparr>recording := True,
                   audio_data := pre_speech_buffer (push_pre_speech a (data b) v0) @ [data b]\<rparr>))"
proof (cases "is_speech (data b) 500")
  case (Inl e)
  with assms show ?thesis by (simp add: testson_step_def Let_def)
next
  case (Inr speech)
  show ?thesis
  proof (cases speech)
    case True
    with Inr assms show ?thesis
      by (auto simp: testson_step_def Let_def dest!: testson_recognizer_Continue)
  next
    case False
    show ?thesis
    proof (cases "recording v0")
      case True
      with False Inr assms show ?thesis
        by (auto simp: testson_step_def testson_silence_def Let_def
            split: if_splits option.splits sum.splits dest!: testson_recognizer_Continue)
    next
      case idle: False
      with False Inr assms show ?thesis
        by (auto simp: testson_step_def Let_def dest!: testson_recognizer_Continue)
    qed
  qed
qed

lemma testson_step_Break:
  assumes "testson_step a b v0 w = Break v1 w'"
  shows "recording v0 \<and> pre_speech_buffer v1 = pre_speech_buffer v0"
proof (cases "is_speech (data b) 500")
  case (Inl e)
  with assms show ?thesis by (simp add: testson_step_def Let_def)
next
  case (Inr speech)
  with assms show ?thesis
    by (auto simp: testson_step_def testson_silence_def testson_recognizer_def Let_def
        split: if_splits option.splits rec_event.splits sum.splits)
qed

lemma push_length:
  assumes "length (pre_speech_buffer v) \<le> buffer_duration * samplerate a div 8000"
  shows "length (pre_speech_buffer (push_pre_speech a d v)) \<le> buffer_duration * samplerate a div 8000"
  using assms by (simp add: push_pre_speech_def Let_def)

lemma tl_drop_snoc:
  assumes "k < length xs"
  shows "tl (drop k xs @ [d]) = drop (Suc k) (xs @ [d])"
proof -
  from assms have "drop k xs \<noteq> []" by simp
  then have "tl (drop k xs @ [d]) = tl (drop k xs) @ [d]" by simp
  also have "\<dots> = drop (Suc k) xs @ [d]" by (simp add: drop_Suc tl_drop)
  also have "\<dots> = drop (Suc k) (xs @ [d])" using assms by simp
  finally show ?thesis .
qed

lemma push_recent:
  assumes "\<not> recording v"
    and "pre_speech_buffer v = drop (length xs - n) xs"
    and "n = buffer_duration * samplerate a div 8000"
  shows "pre_speech_buffer (push_pre_speech a d v) = drop (length (xs @ [d]) - n) (xs @ [d])"
proof (cases "length xs < n")
  case True
  with assms show ?thesis by (simp add: push_pre_speech_def Let_def)
next
  case full: False
  show ?thesis
  proof (cases "n = 0")
    case True
    with assms show ?thesis by (simp add: push_pre_speech_def Let_def)
  next
    case False
    with full have k: "length xs - n < length xs" by simp
    from full have "Suc (length xs) - n = Suc (length xs - n)" by simp
    with assms full tl_drop_snoc [OF k, of d] show ?thesis
      by (simp add: push_pre_speech_def Let_def)
  qed
qed

lemma testson_step_buffer:
  assumes "testson_step a b v0 w = Continue v1"
  shows "pre_speech_buffer v1 = pre_speech_buffer (push_pre_speech a (data b) v0)"
  using testson_step_Continue [OF assms] by (auto split: if_splits)

lemma testson_step_recording:
  assumes "testson_step a b v0 w = Continue v1" and "recording v0"
  shows "recording v1"
  using testson_step_Continue [OF assms(1)] assms(2) by auto

lemma testson_buffer_recent:
  assumes "run (testson_step a) bs testson_init w = Continue v"
  shows "length (pre_speech_buffer v) \<le> buffer_duration * samplerate a div 8000"
    and "\<not> recording v \<Longrightarrow>
           pre_speech_buffer v =
             drop (length bs - buffer_duration * samplerate a div 8000) (map data bs)"
  using assms
proof (induction bs arbitrary: v rule: rev_induct)
  case Nil
  {
    case 1
    then show ?case by (auto simp: testson_init_def)
  next
    case 2
    then show ?case by (auto simp: testson_init_def)
  }
next
  case (snoc b bs)
  {
    case 1
    then obtain v' where r: "run (testson_step a) bs testson_init w = Continue v'"
      and s: "testson_step a b v' w = Continue v"
      by (auto simp: run_snoc split: outcome.splits)
    from snoc.IH(1) [OF r] push_length testson_step_buffer [OF s] show ?case by simp
  next
    case 2
    then obtain v' where r: "run (testson_step a) bs testson_init w = Continue v'"
      and s: "testson_step a b v' w = Continue v"
      by (auto simp: run_snoc split: outcome.splits)
    from testson_step_recording [OF s] 2(1) have idle: "\<not> recording v'" by blast
    from snoc.IH(2) [OF idle r]
    have "pre_speech_buffer v' =
            drop (length (map data bs) - buffer_duration * samplerate a div 8000) (map data bs)"
      by simp
    from push_recent [OF idle this refl, of "data b"] testson_step_buffer [OF s]
    show ?case by simp
  }
qed

lemma testson_buffer_at_break:
  assumes "run (testson_step a) bs testson_init w = Break v w'"
  shows "length (pre_speech_buffer v) \<le> buffer_duration * samplerate a div 8000"
  using assms
proof (induction bs arbitrary: v rule: rev_induct)
  case Nil
  then show ?case by simp
next
  case (snoc b bs)
  show ?case
  proof (cases "run (testson_step a) bs testson_init w")
    case (Continue v')
    with snoc.prems have s: "testson_step a b v' w = Break v w'"
      by (simp add: run_snoc)
    from testson_buffer_recent(1) [OF Continue] testson_step_Break [OF s]
    show ?thesis by simp
  next
    case (Break v' w'')
    with snoc.prems have "run (testson_step a) bs testson_init w = Break v w'"
      by (simp add: run_snoc)
    then show ?thesis by (rule snoc.IH)
  next
    case (Raise e w'')
    with snoc.prems show ?thesis by (simp add: run_snoc)
  qed
qed


lemma testson_step_start:
  assumes "\<not> recording v0" and "testson_step a b v0 w = Continue v1" and "recording v1"
  shows "audio_data v1 = pre_speech_buffer v1 @ [data b]"
  using testson_step_Continue [OF assms(2)] assms(1,3) by auto

subsection \<open>Steps of test.py\<close>

lemma test_step_timer:
  assumes "test_step a b v w = Continue v1"
    and "silence_timer v \<noteq> None \<longrightarrow> recording v"
  shows "silence_timer v1 \<noteq> None \<longrightarrow> recording v1"
  using assms
  by (auto simp: test_step_def split: rec_event.splits if_splits sum.splits)

lemma test_step_speech:
  assumes "recognizer b = Ready r" and "nonempty_text r"
  shows "test_step a b v w =
           Continue ((if \<not> recording v
                      then v\<lparr>recording := True, audio_data := [data b]\<rparr>
                      else v\<lparr>audio_data := audio_data v @ [data b]\<rparr>)
                     \<lparr>silence_timer := None\<rparr>)"
  using assms by (simp add: test_step_def)

lemma test_step_start:
  assumes "\<not> recording v" and "test_step a b v w = Continue v1" and "recording v1"
  shows "audio_data v1 = [data b]"
  using assms
  by (auto simp: test_step_def split: rec_event.splits if_splits sum.splits)

lemma test_run_timer:
  assumes "run (test_step a) bs test_init w = Continue v"
  shows "silence_timer v \<noteq> None \<longrightarrow> recording v"
proof (rule run_invariant [where P = "\<lambda>v. silence_timer v \<noteq> None \<longrightarrow> recording v", OF _ _ assms])
  show "silence_timer test_init \<noteq> None \<longrightarrow> recording test_init"
    by (simp add: test_init_def)
next
  fix b v v'
  assume "silence_timer v \<noteq> None \<longrightarrow> recording v" and "test_step a b v w = Continue v'"
  then show "silence_timer v' \<noteq> None \<longrightarrow> recording v'"
    using test_step_timer by blast
qed

lemma testson_run_timer:
  assumes "run (testson_step a) bs testson_init w = Continue v"
  shows "silence_start v \<noteq> None \<longrightarrow> recording v"
proof (rule run_invariant [where P = "\<lambda>v. silence_start v \<noteq> None \<longrightarrow> recording v", OF _ _ assms])
  show "silence_start testson_init \<noteq> None \<longrightarrow> recording testson_init"
    by (simp add: testson_init_def)
next
  fix b v v'
  assume inv: "silence_start v \<noteq> None \<longrightarrow> recording v"
    and s: "testson_step a b v w = Continue v'"
  from testson_step_Continue [OF s] inv
  show "silence_start v' \<noteq> None \<longrightarrow> recording v'"
    by (auto split: if_splits)
qed

lemma testson_step_speech:
  assumes "is_speech (data b) 500 = Inr True" and "testson_step a b v0 w = Continue v1"
  shows "silence_start v1 = None"
  using testson_step_Continue [OF assms(2)] assms(1) by (auto split: if_splits)

subsection \<open>When the silence path stops a recording\<close>

lemma testson_silence_threshold:
  assumes "silence_start v = Some t" and "last_voice_activity v = Some l"
  shows "(\<exists>v1 w'. testson_silence a b w v = Break v1 w') \<longleftrightarrow>
           now_current b - t > 3 \<and> writable w (filename a)"
  using assms
  by (auto simp: testson_silence_def testson_recognizer_def write_wave_def Let_def
      split: rec_event.splits)

lemma test_step_arms_two_seconds:
  assumes "recording v" and "silence_timer v = None"
    and "recognizer b = Ready r" and "\<not> nonempty_text r"
  shows "test_step a b v w = Continue (v\<lparr>silence_timer := Some (now b + 2)\<rparr>)"
  using assms by (simp add: test_step_def)

lemma test2_step_arms_configured:
  assumes "recording v" and "silence_timer v = None"
    and "recognizer b = Ready r" and "\<not> nonempty_text r"
  shows "test2_step a b v w = Continue (v\<lparr>silence_timer := Some (now b + of_int (silence a))\<rparr>)"
  using assms by (simp add: test2_step_def)
subsection \<open>The trailing trim of testson.py\<close>

lemma py_int_rate: "py_int (of_nat n / 8000) = int (n div 8000)"
proof -
  have "\<lfloor>(of_nat n :: rat) / of_nat 8000\<rfloor> = int (n div 8000)"
    by (rule floor_divide_of_nat_eq)
  then show ?thesis by (simp add: py_int_def)
qed

lemma trim_tail_removes_one_second:
  assumes "last_voice + 1 \<le> current_time" and "samplerate a div 8000 \<le> length audio"
  shows "trim_tail a last_voice current_time audio =
           take (length audio - samplerate a div 8000) audio"
proof -
  have "min (last_voice + 1) current_time - last_voice = 1"
    using assms(1) by simp
  then show ?thesis
    using assms(2) by (simp add: trim_tail_def Let_def py_int_rate slice_to_def nat_diff_distrib)
qed

lemmas scenario_defs = args16k_def empty_world_def heard_def heard_with_def pending_def result_def

lemmas testson_defs = testson_main_def testson_init_def testson_step_def testson_silence_def
  testson_recognizer_def push_pre_speech_def buffer_duration_def trim_tail_def py_int_def
  slice_to_def write_wave_def testson_interrupt_def


subsection \<open>A destination that cannot be opened\<close>

text \<open>On the silence path the write raises inside the loop, and the handler for
  \<^verbatim>\<open>Exception\<close> ends the process: nothing is written.\<close>

lemma locked_destination_fails_in_loop:
  "testson_main args16k
     (map Block [heard 0 loud, heard (1/2) (quiet 1), heard 4 (quiet 2)]) locked_world
   = Exited (Failed OSError) locked_world"
  by (simp add: scenario_defs testson_defs locked_world_def is_speech_loud is_speech_quiet
      Let_def)

section \<open>The claims\<close>

subsection \<open>C1: the trailing trim\<close>

text \<open>
  C1 says that when the silence timer elapses the Segment loses every block that arrived
  later than one second after the last speech block, so that at most one second of silence
  follows the speech. The script computes the number of blocks in that one second and
  removes that many blocks from the end (\<open>trim_tail_removes_one_second\<close>). In the run
  below one loud block arrives at time 0 and quiet blocks every half second from 0.5 to 4;
  the loop stops at time 4, and the file holds the loud block twice and then the six quiet
  blocks that arrived from 0.5 to 3: three seconds of silence after the speech.
\<close>

theorem trailing_trim_leaves_three_seconds:
  "testson_main args16k
     (map Block [heard 0 loud, heard (1/2) (quiet 1), heard 1 (quiet 2), heard (3/2) (quiet 3),
        heard 2 (quiet 4), heard (5/2) (quiet 5), heard 3 (quiet 6), heard (7/2) (quiet 7),
        heard 4 (quiet 8)]) empty_world
   = Exited Finished
       (empty_world
        \<lparr>files := [''output.wav'' \<mapsto> \<lparr>nchannels = 1, sampwidth = 2, framerate = 16000,
           frames = concat [loud, loud, quiet 1, quiet 2, quiet 3, quiet 4, quiet 5, quiet 6]\<rparr>],
         written := [''output.wav'']\<rparr>)"
  by (simp add: scenario_defs testson_defs is_speech_loud is_speech_quiet Let_def)

subsection \<open>C2: the sink of test2.py\<close>

text \<open>What the two calls of the sink do, for a destination other than the temporary file,
  when both files can be opened.\<close>

lemma test2_finalize_result:
  assumes "writable w temp_filename" and "writable w (filename a)"
    and "filename a \<noteq> temp_filename"
  shows "test2_finalize a audio w =
     (None,
      w\<lparr>files := (files w)
           (temp_filename \<mapsto>
              \<lparr>nchannels = 1, sampwidth = 2, framerate = samplerate a,
               frames = concat audio\<rparr>,
            filename a \<mapsto>
              \<lparr>nchannels = 1, sampwidth = 2, framerate = samplerate a,
               frames = concat audio\<rparr>),
         written := written w @ [temp_filename, filename a]\<rparr>)"
  using assms
  by (simp add: test2_finalize_def append_wave_def write_wave_def copy_frames_eq)

text \<open>A destination that cannot be opened makes the sink raise after the temporary file
  has been written; a destination that is the temporary file itself receives only what
  the reader had in its buffer.\<close>

lemma test2_finalize_locked:
  assumes "writable w temp_filename" and "\<not> writable w (filename a)"
  shows "fst (test2_finalize a audio w) = Some OSError"
  using assms
  by (auto simp: test2_finalize_def append_wave_def write_wave_def)

lemma test2_finalize_same_file:
  assumes "writable w temp_filename" and "filename a = temp_filename"
  shows "test2_finalize a audio w =
     (None,
      w\<lparr>files := (files w)
           (temp_filename \<mapsto>
              \<lparr>nchannels = 1, sampwidth = 2, framerate = samplerate a,
               frames = take (read_ahead w) (concat audio)\<rparr>),
         written := written w @ [temp_filename, temp_filename]\<rparr>)"
  using assms
  by (simp add: test2_finalize_def append_wave_def write_wave_def copy_frames_eq)

text \<open>The sink reads nothing of an existing destination, so it compares no format either:
  a destination recorded at 44100 Hz is replaced, without an error, by a file at
  16000 Hz.\<close>

lemma test2_finalize_other_rate:
  "test2_finalize args16k [loud] other_rate_world =
     (None,
      other_rate_world
      \<lparr>files := (files other_rate_world)
           (temp_filename \<mapsto>
              \<lparr>nchannels = 1, sampwidth = 2, framerate = 16000, frames = loud\<rparr>,
            ''output.wav'' \<mapsto>
              \<lparr>nchannels = 1, sampwidth = 2, framerate = 16000, frames = loud\<rparr>),
         written := [temp_filename, ''output.wav'']\<rparr>)"
proof -
  have "test2_finalize args16k [loud] other_rate_world =
     (None,
      other_rate_world
      \<lparr>files := (files other_rate_world)
           (temp_filename \<mapsto>
              \<lparr>nchannels = 1, sampwidth = 2, framerate = samplerate args16k,
               frames = concat [loud]\<rparr>,
            filename args16k \<mapsto>
              \<lparr>nchannels = 1, sampwidth = 2, framerate = samplerate args16k,
               frames = concat [loud]\<rparr>),
         written := written other_rate_world @ [temp_filename, filename args16k]\<rparr>)"
    by (rule test2_finalize_result)
      (simp_all add: other_rate_world_def empty_world_def args16k_def temp_filename_def)
  then show ?thesis
    by (simp add: other_rate_world_def empty_world_def args16k_def)
qed

lemma quiet_not_empty: "quiet k \<noteq> []"
  by (simp add: quiet_def const_frame_def)

text \<open>
  C2 says that in test2.py a destination that exists keeps its audio, with the new
  Segment after it (and that a destination of another format makes the sink fail). The
  function \<^verbatim>\<open>append_wave\<close>, whose docstring is
  \<^verbatim>\<open>Append temporary .wav file to final .wav file\<close>, opens the destination with mode \<^verbatim>\<open>'wb'\<close>: the earlier audio is lost.
  Below, the destination holds a quiet block, mono, 16 bit, at 16000 Hz, the format of
  the run. A transcript starts the recording at time 0 with a loud block, an empty
  transcript arms the timer at 0.5, and the empty transcript at time 3 ends the
  recording. The script ends normally, and the destination holds the loud block alone,
  not the quiet block followed by the loud one.
\<close>

theorem append_wave_loses_earlier_audio:
  "files old_world ''output.wav''
     = Some \<lparr>nchannels = 1, sampwidth = 2, framerate = 16000, frames = quiet 9\<rparr> \<and>
   test2_main args16k
     (map Block [result transcript 0 loud, result empty_transcript (1/2) (quiet 1),
        result empty_transcript 3 (quiet 2)]) old_world
   = Exited Finished
       (old_world
        \<lparr>files := (files old_world)
           (temp_filename \<mapsto>
              \<lparr>nchannels = 1, sampwidth = 2, framerate = 16000, frames = loud\<rparr>,
            ''output.wav'' \<mapsto>
              \<lparr>nchannels = 1, sampwidth = 2, framerate = 16000, frames = loud\<rparr>),
         written := [temp_filename, temp_filename, ''output.wav'']\<rparr>) \<and>
   loud \<noteq> quiet 9 @ loud"
proof -
  have n: "nonempty_text transcript"
    by (simp add: transcript_def nonempty_text_def text_pattern_def)
  have e: "\<not> nonempty_text empty_transcript"
    by (simp add: empty_transcript_def nonempty_text_def text_pattern_def)
  show ?thesis
    by (simp add: test2_main_def test2_step_def test_init_def result_def n e truthy_def
        temp_filename_def
        after_timer_def test2_finalize_def append_wave_def write_wave_def copy_frames_eq
        create_wave_header_def args16k_def old_world_def old_recording_def empty_world_def
        quiet_not_empty)
qed

subsection \<open>C3: a failing detector\<close>

text \<open>
  C3 says that a detector failure counts as a silence verdict for that block and that the
  loop goes on. In testson.py a buffer of odd length makes \<^verbatim>\<open>np.frombuffer\<close> raise
  inside \<^verbatim>\<open>is_speech\<close>; the exception leaves the loop and the handler for
  \<^verbatim>\<open>Exception\<close> ends the process. The loud block that follows is never processed.
\<close>

theorem detector_error_ends_process:
  "is_speech malformed 500 = Inl ValueError \<and>
   testson_main args16k [Block (heard 0 malformed), Block (heard (1/2) loud)] empty_world
     = Exited (Failed ValueError) empty_world \<and>
   exit_status (Failed ValueError) = 1"
  by (simp add: scenario_defs testson_defs is_speech_malformed Let_def)

text \<open>
  C3 as amended: a detector failure is not absorbed. When \<^verbatim>\<open>is_speech\<close> raises on a
  block in testson.py, or the recognizer raises on a block in test.py, the process ends
  there with the error (status 1), whatever blocks follow, and nothing is written, even
  if a recording was in progress.
\<close>

theorem detector_failure_is_fatal:
  "(run (testson_step a) bs testson_init w = Continue v \<and> is_speech (data b) 500 = Inl e \<longrightarrow>
      testson_main a (map Block bs @ Block b # rest) w = Exited (Failed e) w \<and>
      exit_status (Failed e) = 1) \<and>
   (run (test_step a) cs test_init w = Continue u \<and> recognizer c = Throws \<longrightarrow>
      test_main a (map Block cs @ Block c # rest') w = Exited (Failed RecognizerError) w)"
  by (simp add: testson_main_def test_main_def main_blocks testson_step_def test_step_def Let_def)

theorem detector_failure_is_fatal_witness:
  "run (testson_step args16k) [heard 0 loud] testson_init empty_world
     = Continue \<lparr>recording = True, audio_data = [loud, loud], silence_start = None,
         last_voice_activity = Some 0, pre_speech_buffer = [loud]\<rparr> \<and>
   is_speech (data (heard (1/2) malformed)) 500 = Inl ValueError \<and>
   testson_main args16k (map Block [heard 0 loud] @ Block (heard (1/2) malformed) # [])
      empty_world = Exited (Failed ValueError) empty_world \<and>
   run (test_step args16k) [] test_init empty_world = Continue test_init \<and>
   recognizer \<lparr>data = loud, recognizer = Throws, now = 0\<rparr> = Throws \<and>
   test_main args16k (map Block [] @ Block \<lparr>data = loud, recognizer = Throws, now = 0\<rparr> # [])
      empty_world = Exited (Failed RecognizerError) empty_world"
proof -
  let ?v = "\<lparr>recording = True, audio_data = [loud, loud], silence_start = None,
         last_voice_activity = Some 0, pre_speech_buffer = [loud]\<rparr>"
  have r: "run (testson_step args16k) [heard 0 loud] testson_init empty_world = Continue ?v"
    by (simp add: scenario_defs testson_defs is_speech_loud Let_def)
  have d: "is_speech (data (heard (1/2) malformed)) 500 = Inl ValueError"
    by (simp add: heard_def is_speech_malformed)
  have q: "run (test_step args16k) [] test_init empty_world = Continue test_init"
    by simp
  have c: "recognizer \<lparr>data = loud, recognizer = Throws, now = 0\<rparr> = Throws"
    by simp
  from detector_failure_is_fatal [of args16k "[heard 0 loud]" empty_world ?v
      "heard (1/2) malformed" ValueError "[]" "[]" test_init
      "\<lparr>data = loud, recognizer = Throws, now = 0\<rparr>" "[]"] r d q c
  show ?thesis by simp
qed

subsection \<open>C4: the silence duration\<close>

text \<open>
  C4 says that in every script a recording ends on the silence path exactly when the
  silence has lasted longer than the silence duration, 2 seconds unless configured.
  testson.py compares the elapsed silence with 3. In the run below the silence starts at
  time 0.5; at time 3 it has lasted 2.5 seconds, and the script is still recording and has
  written nothing.
\<close>

theorem testson_records_on_after_two_seconds:
  "testson_main args16k
     (map Block [heard 0 loud, heard (1/2) (quiet 1), heard 1 (quiet 2), heard (3/2) (quiet 3),
        heard 2 (quiet 4), heard (5/2) (quiet 5), heard 3 (quiet 6)]) empty_world
   = Waiting \<lparr>recording = True,
        audio_data = [loud, loud, quiet 1, quiet 2, quiet 3, quiet 4, quiet 5, quiet 6],
        silence_start = Some (1/2), last_voice_activity = Some 0,
        pre_speech_buffer = [loud]\<rparr> empty_world"
  by (simp add: scenario_defs testson_defs is_speech_loud is_speech_quiet Let_def)

subsection \<open>C5: how a recording starts\<close>

lemma loud_not_quiet: "loud \<noteq> quiet k"
proof
  assume "loud = quiet k"
  then have "is_speech loud 500 = is_speech (quiet k) 500" by simp
  then show False by (simp add: is_speech_loud is_speech_quiet)
qed

text \<open>
  C5 says that on every transition from idle to recording the Segment starts as the
  pre-roll buffer followed by the current block, so that the recording begins with audio
  from before the speech. test.py keeps no buffer. Below, a quiet block arrives while
  test.py is idle, and half a second later a block with a transcript starts the
  recording: the Segment is that block alone, and the quiet block is not in it.
\<close>

theorem test_py_keeps_no_pre_roll:
  "run (test_step args16k) [pending 0 (quiet 1), result transcript (1/2) loud]
     test_init empty_world
   = Continue \<lparr>recording = True, audio_data = [loud], silence_timer = None\<rparr> \<and>
   quiet 1 \<notin> set [loud]"
proof -
  have "quiet 1 \<noteq> loud" by (rule loud_not_quiet [symmetric])
  then show ?thesis
    by (simp add: scenario_defs test_step_def test_init_def transcript_def
        nonempty_text_def text_pattern_def)
qed

text \<open>
  C5 as amended: in testson.py every iteration that starts a recording, by either
  detector, leaves the Segment equal to the contents of the pre-roll buffer followed by
  the current block, and the buffer holds at most
  \<open>N = buffer_duration * samplerate div 8000\<close> blocks; test.py keeps no pre-roll buffer,
  and there the Segment starts as the current block alone.
\<close>

theorem segment_at_recording_start:
  "(run (testson_step a) bs testson_init w = Continue v0 \<and> \<not> recording v0 \<and>
    testson_step a b v0 w = Continue v1 \<and> recording v1 \<longrightarrow>
      audio_data v1 = pre_speech_buffer v1 @ [data b] \<and>
      length (pre_speech_buffer v1) \<le> buffer_duration * samplerate a div 8000) \<and>
   (\<not> recording u0 \<and> test_step a c u0 w = Continue u1 \<and> recording u1 \<longrightarrow>
      audio_data u1 = [data c])"
proof (intro conjI impI)
  assume h: "run (testson_step a) bs testson_init w = Continue v0 \<and> \<not> recording v0 \<and>
    testson_step a b v0 w = Continue v1 \<and> recording v1"
  then have r: "run (testson_step a) bs testson_init w = Continue v0"
    and idle: "\<not> recording v0" and s: "testson_step a b v0 w = Continue v1"
    and rec: "recording v1"
    by simp_all
  show "audio_data v1 = pre_speech_buffer v1 @ [data b]"
    by (rule testson_step_start [OF idle s rec])
  have b: "pre_speech_buffer v1 = pre_speech_buffer (push_pre_speech a (data b) v0)"
    by (rule testson_step_buffer [OF s])
  from testson_buffer_recent(1) [OF r] push_length b
  show "length (pre_speech_buffer v1) \<le> buffer_duration * samplerate a div 8000"
    by simp
next
  assume "\<not> recording u0 \<and> test_step a c u0 w = Continue u1 \<and> recording u1"
  then show "audio_data u1 = [data c]"
    using test_step_start by blast
qed

theorem segment_at_recording_start_witness:
  "run (testson_step args16k) [heard 0 (quiet 1), heard (1/2) (quiet 2)]
      testson_init empty_world
     = Continue \<lparr>recording = False, audio_data = [], silence_start = None,
         last_voice_activity = None, pre_speech_buffer = [quiet 1, quiet 2]\<rparr> \<and>
   testson_step args16k (heard 1 loud)
      \<lparr>recording = False, audio_data = [], silence_start = None,
         last_voice_activity = None, pre_speech_buffer = [quiet 1, quiet 2]\<rparr> empty_world
     = Continue \<lparr>recording = True, audio_data = [quiet 2, loud, loud], silence_start = None,
         last_voice_activity = Some 1, pre_speech_buffer = [quiet 2, loud]\<rparr> \<and>
   [quiet 2, loud, loud] = [quiet 2, loud] @ [data (heard 1 loud)] \<and>
   length [quiet 2, loud] \<le> buffer_duration * samplerate args16k div 8000 \<and>
   test_step args16k (result transcript 1 loud) test_init empty_world
     = Continue \<lparr>recording = True, audio_data = [loud], silence_timer = None\<rparr> \<and>
   [loud] = [data (result transcript 1 loud)]"
proof -
  let ?v0 = "\<lparr>recording = False, audio_data = [], silence_start = None,
         last_voice_activity = None, pre_speech_buffer = [quiet 1, quiet 2]\<rparr>"
  let ?v1 = "\<lparr>recording = True, audio_data = [quiet 2, loud, loud], silence_start = None,
         last_voice_activity = Some 1, pre_speech_buffer = [quiet 2, loud]\<rparr>"
  let ?u1 = "\<lparr>recording = True, audio_data = [loud], silence_timer = None\<rparr>"
  have r: "run (testson_step args16k) [heard 0 (quiet 1), heard (1/2) (quiet 2)]
      testson_init empty_world = Continue ?v0"
    by (simp add: scenario_defs testson_defs is_speech_quiet Let_def)
  have s: "testson_step args16k (heard 1 loud) ?v0 empty_world = Continue ?v1"
    by (simp add: scenario_defs testson_defs is_speech_loud Let_def)
  have t: "test_step args16k (result transcript 1 loud) test_init empty_world = Continue ?u1"
    by (simp add: scenario_defs test_step_def test_init_def transcript_def
        nonempty_text_def text_pattern_def)
  have i: "\<not> recording test_init" by (simp add: test_init_def)
  from segment_at_recording_start [of args16k "[heard 0 (quiet 1), heard (1/2) (quiet 2)]"
      empty_world ?v0 "heard 1 loud" ?v1 test_init "result transcript 1 loud" ?u1] r s t i
  show ?thesis
    by (simp add: heard_def result_def buffer_duration_def args16k_def)
qed

subsection \<open>C6: the amplitude detector\<close>

text \<open>
  C6 says that the amplitude detector answers speech exactly when the mean of the absolute
  values of the block's 16-bit samples is above the threshold of 500. The script takes the
  absolute value inside int16, where -32768 is its own absolute value. On a block of
  8000 samples of value -32768 (a signal clipped at the negative rail) the mean of the
  absolute values is 32768, and the detector answers silence. Lemma
  \<open>is_speech_mean_abs\<close> shows that blocks without that sample are judged as C6 says.
\<close>

theorem clipped_block_judged_silent:
  "frombuffer clipped = Inr (replicate 8000 (- 32768)) \<and>
   mean (map (\<lambda>w. \<bar>sint w\<bar>) (replicate 8000 (- 32768 :: int16))) = Some 32768 \<and>
   is_speech clipped 500 = Inr False"
  by (simp add: clipped_def is_speech_const_frame frombuffer_const_frame le_int16_def
      np_abs_def mean_replicate)

subsection \<open>C7: the pre-roll buffer is bounded and holds the most recent blocks\<close>

text \<open>
  C7: after every block the pre-roll buffer of testson.py holds at most
  \<open>N = buffer_duration * samplerate div 8000\<close> blocks, whether the iteration goes on or
  leaves the loop, and on overflow the oldest block leaves: as long as the script is
  idle, the buffer is the list of the last \<open>N\<close> blocks received, however many have
  arrived.
\<close>

theorem pre_roll_buffer_bounded:
  "(run (testson_step a) bs testson_init w = Continue v \<longrightarrow>
      length (pre_speech_buffer v) \<le> buffer_duration * samplerate a div 8000 \<and>
      (\<not> recording v \<longrightarrow>
         pre_speech_buffer v =
           drop (length bs - buffer_duration * samplerate a div 8000) (map data bs))) \<and>
   (run (testson_step a) bs testson_init w = Break v' w' \<longrightarrow>
      length (pre_speech_buffer v') \<le> buffer_duration * samplerate a div 8000)"
  using testson_buffer_recent testson_buffer_at_break by blast

theorem pre_roll_buffer_bounded_witness:
  "run (testson_step args16k) [heard 0 (quiet 1), heard (1/2) (quiet 2), heard 1 (quiet 3)]
     testson_init empty_world
   = Continue \<lparr>recording = False, audio_data = [], silence_start = None,
       last_voice_activity = None, pre_speech_buffer = [quiet 2, quiet 3]\<rparr> \<and>
   length [quiet 2, quiet 3] \<le> buffer_duration * samplerate args16k div 8000 \<and>
   [quiet 2, quiet 3] =
     drop (3 - buffer_duration * samplerate args16k div 8000) [quiet 1, quiet 2, quiet 3] \<and>
   run (testson_step args16k) [heard 0 loud, heard (1/2) (quiet 1), heard 4 (quiet 2)]
     testson_init empty_world
   = Break \<lparr>recording = False, audio_data = [loud, loud], silence_start = Some (1/2),
       last_voice_activity = Some 0, pre_speech_buffer = [loud]\<rparr>
       (empty_world
        \<lparr>files := [''output.wav'' \<mapsto> \<lparr>nchannels = 1, sampwidth = 2, framerate = 16000,
           frames = concat [loud, loud]\<rparr>],
         written := [''output.wav'']\<rparr>) \<and>
   length [loud] \<le> buffer_duration * samplerate args16k div 8000"
proof -
  have r: "run (testson_step args16k)
      [heard 0 (quiet 1), heard (1/2) (quiet 2), heard 1 (quiet 3)] testson_init empty_world
    = Continue \<lparr>recording = False, audio_data = [], silence_start = None,
       last_voice_activity = None, pre_speech_buffer = [quiet 2, quiet 3]\<rparr>"
    by (simp add: scenario_defs testson_defs is_speech_quiet Let_def)
  have q: "run (testson_step args16k) [heard 0 loud, heard (1/2) (quiet 1), heard 4 (quiet 2)]
     testson_init empty_world
   = Break \<lparr>recording = False, audio_data = [loud, loud], silence_start = Some (1/2),
       last_voice_activity = Some 0, pre_speech_buffer = [loud]\<rparr>
       (empty_world
        \<lparr>files := [''output.wav'' \<mapsto> \<lparr>nchannels = 1, sampwidth = 2, framerate = 16000,
           frames = concat [loud, loud]\<rparr>],
         written := [''output.wav'']\<rparr>)"
    by (simp add: scenario_defs testson_defs is_speech_loud is_speech_quiet Let_def)
  from pre_roll_buffer_bounded
      [of args16k "[heard 0 (quiet 1), heard (1/2) (quiet 2), heard 1 (quiet 3)]" empty_world]
    pre_roll_buffer_bounded
      [of args16k "[heard 0 loud, heard (1/2) (quiet 1), heard 4 (quiet 2)]" empty_world]
    r q
  show ?thesis
    by (simp add: heard_def buffer_duration_def args16k_def)
qed

subsection \<open>C8: the silence timer\<close>

text \<open>
  C8 says that the silence timer is set only while recording and that, once armed, any
  later speech verdict clears it at once. In testson.py the recognizer gives a speech
  signal too, and the script uses it only to start a recording (the test
  \<^verbatim>\<open>and not recording\<close>). Below, a recording is running and the timer was armed at time
  0.5; at time 1 a block that the amplitude detector judges silent comes with a transcript
  that is not empty: the timer stays armed at 0.5.
\<close>

theorem transcript_leaves_timer_armed:
  "run (testson_step args16k) [heard 0 loud, heard (1/2) (quiet 1)] testson_init empty_world
     = Continue \<lparr>recording = True, audio_data = [loud, loud, quiet 1],
         silence_start = Some (1/2), last_voice_activity = Some 0,
         pre_speech_buffer = [loud]\<rparr> \<and>
   recognizer (heard_with transcript 1 (quiet 2)) = Ready transcript \<and>
   nonempty_text transcript \<and>
   testson_step args16k (heard_with transcript 1 (quiet 2))
      \<lparr>recording = True, audio_data = [loud, loud, quiet 1],
         silence_start = Some (1/2), last_voice_activity = Some 0,
         pre_speech_buffer = [loud]\<rparr> empty_world
     = Continue \<lparr>recording = True, audio_data = [loud, loud, quiet 1, quiet 2],
         silence_start = Some (1/2), last_voice_activity = Some 0,
         pre_speech_buffer = [loud]\<rparr>"
  by (simp add: scenario_defs testson_defs is_speech_loud is_speech_quiet Let_def
      transcript_def nonempty_text_def text_pattern_def)

text \<open>
  C8 as amended: the silence timer is set only while recording (in every state the loops
  of testson.py and test.py reach, a set timer means that the script is recording, so
  the timer is absent while idle), and once armed it is cleared at once by the next
  speech verdict of the detector that drives the recording: the amplitude detector in
  testson.py (the timer is \<open>silence_start\<close>), a transcript that is not empty in test.py
  (the timer is \<open>silence_timer\<close>). In testson.py a transcript is no such verdict: on a
  block that the amplitude detector judges silent while recording, the timer is armed
  after the iteration, whatever the recognizer answers.
\<close>

theorem silence_timer_discipline:
  "(run (testson_step a) bs testson_init w = Continue v \<and> silence_start v \<noteq> None \<longrightarrow>
      recording v) \<and>
   (is_speech (data b) 500 = Inr True \<and> testson_step a b v0 w = Continue v1 \<longrightarrow>
      silence_start v1 = None) \<and>
   (is_speech (data b') 500 = Inr False \<and> recording v0' \<and>
    testson_step a b' v0' w = Continue v1' \<longrightarrow>
      silence_start v1' =
        Some (case silence_start v0' of None \<Rightarrow> now_silence b' | Some t \<Rightarrow> t)) \<and>
   (run (test_step a) cs test_init w = Continue u \<and> silence_timer u \<noteq> None \<longrightarrow>
      recording u) \<and>
   (recognizer c = Ready r \<and> nonempty_text r \<and> test_step a c u0 w = Continue u1 \<longrightarrow>
      silence_timer u1 = None)"
proof (intro conjI impI)
  assume "run (testson_step a) bs testson_init w = Continue v \<and> silence_start v \<noteq> None"
  then show "recording v" using testson_run_timer by blast
next
  assume "is_speech (data b) 500 = Inr True \<and> testson_step a b v0 w = Continue v1"
  then show "silence_start v1 = None" using testson_step_speech by blast
next
  assume h: "is_speech (data b') 500 = Inr False \<and> recording v0' \<and>
    testson_step a b' v0' w = Continue v1'"
  then have s: "testson_step a b' v0' w = Continue v1'" by simp
  from testson_step_Continue [OF s] h
  show "silence_start v1' =
          Some (case silence_start v0' of None \<Rightarrow> now_silence b' | Some t \<Rightarrow> t)"
    by auto
next
  assume "run (test_step a) cs test_init w = Continue u \<and> silence_timer u \<noteq> None"
  then show "recording u" using test_run_timer by blast
next
  assume h: "recognizer c = Ready r \<and> nonempty_text r \<and> test_step a c u0 w = Continue u1"
  then have "test_step a c u0 w =
           Continue ((if \<not> recording u0
                      then u0\<lparr>recording := True, audio_data := [data c]\<rparr>
                      else u0\<lparr>audio_data := audio_data u0 @ [data c]\<rparr>)
                     \<lparr>silence_timer := None\<rparr>)"
    using test_step_speech by blast
  with h show "silence_timer u1 = None" by auto
qed

theorem silence_timer_discipline_witness:
  "run (testson_step args16k) [heard 0 loud, heard (1/2) (quiet 1)] testson_init empty_world
     = Continue \<lparr>recording = True, audio_data = [loud, loud, quiet 1],
         silence_start = Some (1/2), last_voice_activity = Some 0,
         pre_speech_buffer = [loud]\<rparr> \<and>
   is_speech (data (heard 1 loud)) 500 = Inr True \<and>
   testson_step args16k (heard 1 loud)
      \<lparr>recording = True, audio_data = [loud, loud, quiet 1],
         silence_start = Some (1/2), last_voice_activity = Some 0,
         pre_speech_buffer = [loud]\<rparr> empty_world
     = Continue \<lparr>recording = True, audio_data = [loud, loud, quiet 1, loud],
         silence_start = None, last_voice_activity = Some 1,
         pre_speech_buffer = [loud]\<rparr> \<and>
   is_speech (data (heard_with transcript 1 (quiet 2))) 500 = Inr False \<and>
   testson_step args16k (heard_with transcript 1 (quiet 2))
      \<lparr>recording = True, audio_data = [loud, loud, quiet 1],
         silence_start = Some (1/2), last_voice_activity = Some 0,
         pre_speech_buffer = [loud]\<rparr> empty_world
     = Continue \<lparr>recording = True, audio_data = [loud, loud, quiet 1, quiet 2],
         silence_start = Some (1/2), last_voice_activity = Some 0,
         pre_speech_buffer = [loud]\<rparr> \<and>
   run (test_step args16k) [result transcript 0 loud, result empty_transcript (1/2) (quiet 1)]
      test_init empty_world
     = Continue \<lparr>recording = True, audio_data = [loud], silence_timer = Some (5/2)\<rparr> \<and>
   recognizer (result transcript 1 loud) = Ready transcript \<and> nonempty_text transcript \<and>
   test_step args16k (result transcript 1 loud)
      \<lparr>recording = True, audio_data = [loud], silence_timer = Some (5/2)\<rparr> empty_world
     = Continue \<lparr>recording = True, audio_data = [loud, loud], silence_timer = None\<rparr>"
proof -
  let ?v = "\<lparr>recording = True, audio_data = [loud, loud, quiet 1],
         silence_start = Some (1/2), last_voice_activity = Some 0,
         pre_speech_buffer = [loud]\<rparr>"
  let ?v1 = "\<lparr>recording = True, audio_data = [loud, loud, quiet 1, loud],
         silence_start = None, last_voice_activity = Some 1,
         pre_speech_buffer = [loud]\<rparr>"
  let ?v2 = "\<lparr>recording = True, audio_data = [loud, loud, quiet 1, quiet 2],
         silence_start = Some (1/2), last_voice_activity = Some 0,
         pre_speech_buffer = [loud]\<rparr>"
  let ?u = "\<lparr>recording = True, audio_data = [loud], silence_timer = Some (5/2)\<rparr>"
  let ?u1 = "\<lparr>recording = True, audio_data = [loud, loud], silence_timer = None\<rparr>"
  have n: "nonempty_text transcript"
    by (simp add: transcript_def nonempty_text_def text_pattern_def)
  have e: "\<not> nonempty_text empty_transcript"
    by (simp add: empty_transcript_def nonempty_text_def text_pattern_def)
  have r: "run (testson_step args16k) [heard 0 loud, heard (1/2) (quiet 1)]
      testson_init empty_world = Continue ?v"
    by (simp add: scenario_defs testson_defs is_speech_loud is_speech_quiet Let_def)
  have d: "is_speech (data (heard 1 loud)) 500 = Inr True"
    by (simp add: heard_def is_speech_loud)
  have s: "testson_step args16k (heard 1 loud) ?v empty_world = Continue ?v1"
    by (simp add: scenario_defs testson_defs is_speech_loud Let_def)
  have d': "is_speech (data (heard_with transcript 1 (quiet 2))) 500 = Inr False"
    by (simp add: heard_with_def is_speech_quiet)
  have s': "testson_step args16k (heard_with transcript 1 (quiet 2)) ?v empty_world
      = Continue ?v2"
    by (simp add: scenario_defs testson_defs is_speech_quiet Let_def n)
  have q: "run (test_step args16k)
      [result transcript 0 loud, result empty_transcript (1/2) (quiet 1)]
      test_init empty_world = Continue ?u"
    by (simp add: scenario_defs test_step_def test_init_def n e)
  have c: "recognizer (result transcript 1 loud) = Ready transcript"
    by (simp add: result_def)
  have t: "test_step args16k (result transcript 1 loud) ?u empty_world = Continue ?u1"
    by (simp add: scenario_defs test_step_def n)
  from silence_timer_discipline [of args16k "[heard 0 loud, heard (1/2) (quiet 1)]"
      empty_world ?v "heard 1 loud" ?v ?v1 "heard_with transcript 1 (quiet 2)" ?v ?v2
      "[result transcript 0 loud, result empty_transcript (1/2) (quiet 1)]" ?u
      "result transcript 1 loud" transcript ?u ?u1] r d s d' s' n q c t
  show ?thesis by simp
qed

subsection \<open>C9: interruption and the end of the stream\<close>

text \<open>
  C9 says that on user interruption or at the end of the stream a recording in progress is
  written once, untrimmed, before the process leaves with status 0. The scripts have no
  end of stream: when no further block arrives the loop waits in \<^verbatim>\<open>q.get()\<close>. Below,
  a loud block has started a recording and nothing follows: the process is waiting, it
  has not left, and nothing has been written.
\<close>

theorem stream_end_writes_nothing:
  "testson_main args16k [Block (heard 0 loud)] empty_world
   = Waiting \<lparr>recording = True, audio_data = [loud, loud], silence_start = None,
       last_voice_activity = Some 0, pre_speech_buffer = [loud]\<rparr> empty_world"
  by (simp add: scenario_defs testson_defs is_speech_loud Let_def)

text \<open>
  C9 as amended, for testson.py and test.py: on a user interruption that arrives while
  the loop waits for the next block in \<^verbatim>\<open>q.get()\<close>, after any blocks that left the loop
  running: if the script is idle, nothing is written and the process leaves with status
  0; if it is recording and the destination can be opened for writing, the destination
  is opened once and receives all the blocks of the Segment, in order, none removed, and
  the process leaves with status 0; if it is recording and the destination cannot be
  opened, the write raises inside the handler, nothing is written and the process leaves
  with status 1. When blocks stop arriving without an interruption, the process waits
  and the files are untouched.
\<close>

theorem interrupt_writes_segment_once:
  "(run (testson_step a) bs testson_init w = Continue v \<longrightarrow>
      testson_main a (map Block bs @ KeyboardInterrupt # rest) w =
        (if recording v then
           if writable w (filename a) then
             Exited Interrupted
               (w\<lparr>files := (files w)(filename a \<mapsto>
                     \<lparr>nchannels = 1, sampwidth = 2, framerate = samplerate a,
                      frames = concat (audio_data v)\<rparr>),
                   written := written w @ [filename a]\<rparr>)
           else Exited (Uncaught OSError) w
         else Exited Interrupted w) \<and>
      exit_status Interrupted = 0 \<and> exit_status (Uncaught OSError) = 1 \<and>
      testson_main a (map Block bs) w = Waiting v w) \<and>
   (run (test_step a) cs test_init w = Continue u \<longrightarrow>
      test_main a (map Block cs @ KeyboardInterrupt # rest') w =
        (if recording u then
           if writable w (filename a) then
             Exited Interrupted
               (w\<lparr>files := (files w)(filename a \<mapsto>
                     \<lparr>nchannels = 1, sampwidth = 2, framerate = samplerate a,
                      frames = concat (audio_data u)\<rparr>),
                   written := written w @ [filename a]\<rparr>)
           else Exited (Uncaught OSError) w
         else Exited Interrupted w) \<and>
      test_main a (map Block cs) w = Waiting u w)"
proof (intro conjI impI)
  assume r: "run (testson_step a) bs testson_init w = Continue v"
  show "testson_main a (map Block bs @ KeyboardInterrupt # rest) w =
        (if recording v then
           if writable w (filename a) then
             Exited Interrupted
               (w\<lparr>files := (files w)(filename a \<mapsto>
                     \<lparr>nchannels = 1, sampwidth = 2, framerate = samplerate a,
                      frames = concat (audio_data v)\<rparr>),
                   written := written w @ [filename a]\<rparr>)
           else Exited (Uncaught OSError) w
         else Exited Interrupted w)"
    by (simp add: testson_main_def main_blocks r testson_interrupt_def write_wave_def)
  show "exit_status Interrupted = 0" by simp
  show "exit_status (Uncaught OSError) = 1" by simp
  from main_blocks [of "testson_step a" "testson_interrupt a" bs "[]" testson_init w] r
  show "testson_main a (map Block bs) w = Waiting v w"
    by (simp add: testson_main_def)
next
  assume r: "run (test_step a) cs test_init w = Continue u"
  show "test_main a (map Block cs @ KeyboardInterrupt # rest') w =
        (if recording u then
           if writable w (filename a) then
             Exited Interrupted
               (w\<lparr>files := (files w)(filename a \<mapsto>
                     \<lparr>nchannels = 1, sampwidth = 2, framerate = samplerate a,
                      frames = concat (audio_data u)\<rparr>),
                   written := written w @ [filename a]\<rparr>)
           else Exited (Uncaught OSError) w
         else Exited Interrupted w)"
    by (simp add: test_main_def main_blocks r test_interrupt_def write_wave_def)
  from main_blocks [of "test_step a" "test_interrupt a" cs "[]" test_init w] r
  show "test_main a (map Block cs) w = Waiting u w"
    by (simp add: test_main_def)
qed

theorem interrupt_writes_segment_once_witness:
  "run (testson_step args16k) [heard 0 loud, heard (1/2) (quiet 1)] testson_init empty_world
     = Continue \<lparr>recording = True, audio_data = [loud, loud, quiet 1],
         silence_start = Some (1/2), last_voice_activity = Some 0,
         pre_speech_buffer = [loud]\<rparr> \<and>
   testson_main args16k
      (map Block [heard 0 loud, heard (1/2) (quiet 1)] @ KeyboardInterrupt # []) empty_world
     = Exited Interrupted
         (empty_world
          \<lparr>files := [''output.wav'' \<mapsto> \<lparr>nchannels = 1, sampwidth = 2, framerate = 16000,
             frames = concat [loud, loud, quiet 1]\<rparr>],
           written := [''output.wav'']\<rparr>) \<and>
   run (test_step args16k) [result transcript 0 loud] test_init locked_world
     = Continue \<lparr>recording = True, audio_data = [loud], silence_timer = None\<rparr> \<and>
   test_main args16k (map Block [result transcript 0 loud] @ KeyboardInterrupt # [])
      locked_world
     = Exited (Uncaught OSError) locked_world"
proof -
  let ?v = "\<lparr>recording = True, audio_data = [loud, loud, quiet 1],
         silence_start = Some (1/2), last_voice_activity = Some 0,
         pre_speech_buffer = [loud]\<rparr>"
  let ?u = "\<lparr>recording = True, audio_data = [loud], silence_timer = None\<rparr>"
  have r: "run (testson_step args16k) [heard 0 loud, heard (1/2) (quiet 1)]
      testson_init empty_world = Continue ?v"
    by (simp add: scenario_defs testson_defs is_speech_loud is_speech_quiet Let_def)
  have q: "run (test_step args16k) [result transcript 0 loud] test_init locked_world
      = Continue ?u"
    by (simp add: scenario_defs test_step_def test_init_def transcript_def
        nonempty_text_def text_pattern_def)
  from interrupt_writes_segment_once [of args16k "[heard 0 loud, heard (1/2) (quiet 1)]"
      empty_world ?v "[]" "[result transcript 0 loud]" ?u "[]"]
    interrupt_writes_segment_once [of args16k "[]" locked_world testson_init "[]"
      "[result transcript 0 loud]" ?u "[]"] r q
  show ?thesis
    by (simp add: args16k_def empty_world_def locked_world_def)
qed

subsection \<open>C10: the triggering block is recorded twice\<close>



end
